theory Spec2Isabelle
  imports Complex_Main
begin

section \<open>Numbers of the data frames\<close>

text \<open>
  The notebook computes on columns of 64-bit binary floating-point numbers. The model
  keeps the three kinds of special value that decide the behaviour of the routines
  (not-a-number and the two infinities) and the range of the finite numbers: a sum, a
  quotient or a square whose exact value is at or beyond the overflow threshold
  \<open>2\<^sup>1\<^sup>0\<^sup>2\<^sup>4 - 2\<^sup>9\<^sup>7\<^sup>0\<close> is an infinity, and a quotient or a square whose exact value is at
  or below \<open>2\<^sup>-\<^sup>1\<^sup>0\<^sup>7\<^sup>5\<close>, half the least positive number, is zero. Inside the range a
  finite value is taken as an exact real: rounding is outside the model. The two zeros
  are one value \<open>Fin 0\<close>; every divisor of the program is a sum of squares or a sum of
  reciprocals of squares, so a zero divisor is the positive zero.
\<close>

datatype float64 = Fin real | PInf | NInf | NaN

fun fneg :: "float64 \<Rightarrow> float64" where
  "fneg (Fin a) = Fin (- a)"
| "fneg PInf = NInf"
| "fneg NInf = PInf"
| "fneg NaN = NaN"

definition overflow_threshold :: real where
  "overflow_threshold = 2 ^ 1024 - 2 ^ 970"

definition underflow_threshold :: real where
  "underflow_threshold = 1 / 2 ^ 1075"

text \<open>The number that an exact sum becomes: a sum of two numbers overflows, and is
  never flushed to zero.\<close>

definition sum_result :: "real \<Rightarrow> float64" where
  "sum_result r =
     (if overflow_threshold \<le> r then PInf
      else if r \<le> - overflow_threshold then NInf
      else Fin r)"

text \<open>The number that an exact quotient or square becomes: it overflows, and it
  underflows to zero.\<close>

definition product_result :: "real \<Rightarrow> float64" where
  "product_result r =
     (if overflow_threshold \<le> r then PInf
      else if r \<le> - overflow_threshold then NInf
      else if \<bar>r\<bar> \<le> underflow_threshold then Fin 0
      else Fin r)"

fun fadd :: "float64 \<Rightarrow> float64 \<Rightarrow> float64" where
  "fadd (Fin a) (Fin b) = sum_result (a + b)"
| "fadd (Fin a) PInf = PInf"
| "fadd (Fin a) NInf = NInf"
| "fadd PInf (Fin b) = PInf"
| "fadd PInf PInf = PInf"
| "fadd PInf NInf = NaN"
| "fadd NInf (Fin b) = NInf"
| "fadd NInf PInf = NaN"
| "fadd NInf NInf = NInf"
| "fadd NaN y = NaN"
| "fadd x NaN = NaN"

definition fsub :: "float64 \<Rightarrow> float64 \<Rightarrow> float64" where
  "fsub x y = fadd x (fneg y)"

text \<open>The product is used for the rate of change alone, on the slope that the solver
  returns; like the arithmetic of the solver it is exact.\<close>

fun fmul :: "float64 \<Rightarrow> float64 \<Rightarrow> float64" where
  "fmul (Fin a) (Fin b) = Fin (a * b)"
| "fmul (Fin a) PInf = (if a = 0 then NaN else if 0 < a then PInf else NInf)"
| "fmul (Fin a) NInf = (if a = 0 then NaN else if 0 < a then NInf else PInf)"
| "fmul PInf (Fin b) = (if b = 0 then NaN else if 0 < b then PInf else NInf)"
| "fmul NInf (Fin b) = (if b = 0 then NaN else if 0 < b then NInf else PInf)"
| "fmul PInf PInf = PInf"
| "fmul PInf NInf = NInf"
| "fmul NInf PInf = NInf"
| "fmul NInf NInf = PInf"
| "fmul NaN y = NaN"
| "fmul x NaN = NaN"

text \<open>Division warns and continues on a zero divisor: \<open>x / 0\<close> is an infinity of the
  sign of \<open>x\<close>, and \<open>0 / 0\<close> is not-a-number.\<close>

fun fdiv :: "float64 \<Rightarrow> float64 \<Rightarrow> float64" where
  "fdiv (Fin a) (Fin b) =
     (if b \<noteq> 0 then product_result (a / b)
      else if 0 < a then PInf else if a < 0 then NInf else NaN)"
| "fdiv (Fin a) PInf = Fin 0"
| "fdiv (Fin a) NInf = Fin 0"
| "fdiv PInf (Fin b) = (if 0 \<le> b then PInf else NInf)"
| "fdiv NInf (Fin b) = (if 0 \<le> b then NInf else PInf)"
| "fdiv PInf PInf = NaN"
| "fdiv PInf NInf = NaN"
| "fdiv NInf PInf = NaN"
| "fdiv NInf NInf = NaN"
| "fdiv NaN y = NaN"
| "fdiv x NaN = NaN"

text \<open>\<open>x ** 2\<close> on a column.\<close>

fun fpow2 :: "float64 \<Rightarrow> float64" where
  "fpow2 (Fin a) = product_result (a\<^sup>2)"
| "fpow2 PInf = PInf"
| "fpow2 NInf = PInf"
| "fpow2 NaN = NaN"

text \<open>\<open>np.sqrt\<close>: not-a-number below zero.\<close>

fun fsqrt :: "float64 \<Rightarrow> float64" where
  "fsqrt (Fin a) = (if 0 \<le> a then Fin (sqrt a) else NaN)"
| "fsqrt PInf = PInf"
| "fsqrt NInf = NaN"
| "fsqrt NaN = NaN"

text \<open>
  \<open>np.sum\<close> applied to a column of a data frame hands over to the column's own \<open>sum\<close>,
  which skips not-a-number entries and gives 0 on an empty column. Infinities are
  ordinary entries.
\<close>

fun nansum :: "float64 list \<Rightarrow> float64" where
  "nansum [] = Fin 0"
| "nansum (x # xs) = (if x = NaN then nansum xs else fadd x (nansum xs))"



section \<open>The sample table\<close>

text \<open>
  A row of the gridded product: the columns \<open>timestamp\<close> (whole seconds), \<open>elevation\<close>,
  \<open>uncertainty\<close> and the point geometry of the pixel. A point is its pair of
  coordinates; two rows are at the same place when the pairs are equal.
\<close>

type_synonym point = "real \<times> real"

record sample =
  timestamp :: int
  elevation :: float64
  uncertainty :: float64
  geometry :: point

datatype error = IndexError

text \<open>The distinct values of a column, in the order of their first appearance.\<close>

fun unique :: "'a list \<Rightarrow> 'a list" where
  "unique [] = []"
| "unique (x # xs) = x # unique (filter (\<lambda>y. y \<noteq> x) xs)"

text \<open>
  The spatial join of two tables of points (\<open>how='inner'\<close>, predicate \<open>intersects\<close>): one
  row for every pair of a left and a right row at the same point; a row without a
  partner on the other side is dropped.
\<close>

definition sjoin :: "sample list \<Rightarrow> sample list \<Rightarrow> (sample \<times> sample) list" where
  "sjoin left right =
     concat (map (\<lambda>l. map (\<lambda>r. (l, r)) (filter (\<lambda>r. geometry r = geometry l) right)) left)"


section \<open>The weighted time series\<close>

text \<open>The body of the loop of \<open>calculate_time_series\<close>, for one timestamp: the joined
  table, its two new columns, and the two numbers appended to the result lists.\<close>

definition weighted_mean_and_error :: "sample list \<Rightarrow> sample list \<Rightarrow> float64 \<times> float64" where
  "weighted_mean_and_error reference_dem gridded_product_for_timestamp =
     (let merged_gdf = sjoin reference_dem gridded_product_for_timestamp;
          elevation_difference =
            map (\<lambda>(l, r). fsub (elevation r) (elevation l)) merged_gdf;
          elevation_difference_unc =
            map (\<lambda>(l, r). fsqrt (fadd (fpow2 (uncertainty r)) (fpow2 (uncertainty l)))) merged_gdf;
          weighted_mean =
            fdiv (nansum (map (\<lambda>(d, u). fdiv d (fpow2 u))
                            (zip elevation_difference elevation_difference_unc)))
                 (nansum (map (\<lambda>u. fdiv (Fin 1) (fpow2 u)) elevation_difference_unc));
          error =
            fsqrt (fdiv (Fin 1)
                     (nansum (map (\<lambda>u. fdiv (Fin 1) (fpow2 u)) elevation_difference_unc)))
      in (weighted_mean, error))"

text \<open>The rows of one timestamp: \<open>df[df.timestamp == t]\<close>.\<close>

definition rows_at :: "int \<Rightarrow> sample list \<Rightarrow> sample list" where
  "rows_at t gridded_product_data = filter (\<lambda>s. timestamp s = t) gridded_product_data"

definition unique_timestamps :: "sample list \<Rightarrow> int list" where
  "unique_timestamps gridded_product_data = sort (unique (map timestamp gridded_product_data))"

text \<open>
  \<open>calculate_time_series\<close>. Taking element 0 of the empty list of timestamps raises.
  The conversion of a timestamp to a date is the library's; it is the parameter
  \<open>fromtimestamp\<close>, taken as total: a timestamp beyond the years that the library's
  dates can hold is outside the model.
\<close>

definition calculate_time_series ::
  "(int \<Rightarrow> 'd) \<Rightarrow> sample list \<Rightarrow> error + (float64 list \<times> float64 list \<times> 'd list)" where
  "calculate_time_series fromtimestamp gridded_product_data =
     (case unique_timestamps gridded_product_data of
        [] \<Rightarrow> Inl IndexError
      | t0 # _ \<Rightarrow>
          (let reference_dem = rows_at t0 gridded_product_data;
               results = map (\<lambda>unique_timestamp.
                   weighted_mean_and_error reference_dem
                     (rows_at unique_timestamp gridded_product_data))
                 (unique_timestamps gridded_product_data)
           in Inr (map fst results, map snd results,
                   map fromtimestamp (unique_timestamps gridded_product_data))))"


section \<open>The map of the rate of change\<close>













section \<open>Notions used in the statements\<close>

text \<open>One row of the joined table: its combined uncertainty and its two summands.\<close>

definition pair_sigma :: "sample \<times> sample \<Rightarrow> float64" where
  "pair_sigma p = fsqrt (fadd (fpow2 (uncertainty (snd p))) (fpow2 (uncertainty (fst p))))"

definition pair_num :: "sample \<times> sample \<Rightarrow> float64" where
  "pair_num p = fdiv (fsub (elevation (snd p)) (elevation (fst p))) (fpow2 (pair_sigma p))"

definition pair_weight :: "sample \<times> sample \<Rightarrow> float64" where
  "pair_weight p = fdiv (Fin 1) (fpow2 (pair_sigma p))"

text \<open>
  The specification's wording of the weighted difference, on real numbers: the paired
  observations of a reference set \<open>R\<close> and the set \<open>S\<close> of a timestamp, the difference and
  the combined uncertainty of a pair, the weighted mean and its propagated uncertainty.
\<close>

definition spec_pairs :: "sample list \<Rightarrow> sample list \<Rightarrow> (sample \<times> sample) list" where
  "spec_pairs R S = [(l, r). l \<leftarrow> R, r \<leftarrow> S, geometry l = geometry r]"











text \<open>A weight of the reference entry: infinite, or a number above zero.\<close>

definition pos_or_inf :: "float64 \<Rightarrow> bool" where
  "pos_or_inf x = (case x of Fin w \<Rightarrow> 0 < w | PInf \<Rightarrow> True | _ \<Rightarrow> False)"



text \<open>Tables for the examples: a row of finite numbers, and the scenario of three
  places \<open>A\<close>, \<open>B\<close>, \<open>C\<close> seen at two times with uncertainty 1.\<close>

definition row :: "int \<Rightarrow> real \<Rightarrow> real \<Rightarrow> point \<Rightarrow> sample" where
  "row t e u g = \<lparr>timestamp = t, elevation = Fin e, uncertainty = Fin u, geometry = g\<rparr>"

definition scenario_abc :: "int \<Rightarrow> int \<Rightarrow> point \<Rightarrow> point \<Rightarrow> point \<Rightarrow> sample list" where
  "scenario_abc t0 t1 A B C =
     [row t0 10 1 A, row t0 20 1 B, row t0 5 1 C, row t1 10 1 A, row t1 18 1 B, row t1 4 1 C]"

definition example_abc :: "sample list" where
  "example_abc = scenario_abc 0 1 (0, 0) (1, 0) (2, 0)"


text \<open>A table whose middle timestamp has no place in common with the first.\<close>

definition example_no_match :: "sample list" where
  "example_no_match = [row 0 1 1 (0, 0), row 1 2 1 (1, 0), row 2 3 1 (0, 0)]"


text \<open>Tables with an uncertainty of zero and a negative uncertainty at the place
  \<open>(0, 0)\<close> of the second timestamp, the table without that row, and the table with a
  missing uncertainty in that row.\<close>

definition example_zero_unc :: "sample list" where
  "example_zero_unc = [row 0 0 1 (0, 0), row 0 0 1 (1, 0), row 1 2 0 (0, 0), row 1 4 1 (1, 0)]"

definition example_neg_unc :: "sample list" where
  "example_neg_unc = [row 0 0 1 (0, 0), row 0 0 1 (1, 0), row 1 2 (- 1) (0, 0), row 1 4 1 (1, 0)]"

definition example_without :: "sample list" where
  "example_without = [row 0 0 1 (0, 0), row 0 0 1 (1, 0), row 1 4 1 (1, 0)]"

definition example_nan_unc :: "sample list" where
  "example_nan_unc = [row 0 0 1 (0, 0), row 0 0 1 (1, 0),
     \<lparr>timestamp = 1, elevation = Fin 2, uncertainty = NaN, geometry = (0, 0)\<rparr>, row 1 4 1 (1, 0)]"



definition huge_uncertainty :: real where
  "huge_uncertainty = 10 ^ 200"


definition example_huge_unc :: "sample list" where
  "example_huge_unc = [row 0 5 huge_uncertainty (0, 0)]"

text \<open>A table whose middle timestamp has no place in common with the first, with two
  places at the other timestamps.\<close>

definition example_disjoint :: "sample list" where
  "example_disjoint = [row 0 1 1 (0, 0), row 0 3 1 (1, 0), row 5 2 1 (2, 0),
     row 9 4 1 (0, 0), row 9 9 1 (1, 0)]"









section \<open>Facts about the numbers and the tables\<close>

lemma fadd_NaN_right [simp]: "fadd x NaN = NaN"
  by (cases x) auto

lemma fdiv_NaN_right [simp]: "fdiv x NaN = NaN"
  by (cases x) auto

lemma fmul_NaN_right [simp]: "fmul x NaN = NaN"
  by (cases x) auto


text \<open>The range of the numbers.\<close>

lemma overflow_threshold_gt: "10 ^ 300 < overflow_threshold"
  by (simp add: overflow_threshold_def)

lemma overflow_threshold_pos: "0 < overflow_threshold"
  using overflow_threshold_gt by (smt (verit) zero_less_power)

lemma underflow_threshold_lt: "underflow_threshold < 1 / 10 ^ 300"
  by (simp add: underflow_threshold_def field_simps)

lemma underflow_threshold_pos: "0 < underflow_threshold"
  by (simp add: underflow_threshold_def)

lemma underflow_lt_inverse_overflow: "underflow_threshold < 1 / overflow_threshold"
  by (simp add: underflow_threshold_def overflow_threshold_def field_simps)

lemma sum_result_0 [simp]: "sum_result 0 = Fin 0"
  using overflow_threshold_pos by (simp add: sum_result_def)

lemma product_result_0 [simp]: "product_result 0 = Fin 0"
  using overflow_threshold_pos underflow_threshold_pos by (simp add: product_result_def)

lemma sum_result_in_range:
  "- overflow_threshold < r \<Longrightarrow> r < overflow_threshold \<Longrightarrow> sum_result r = Fin r"
  by (simp add: sum_result_def)

lemma product_result_in_range:
  "underflow_threshold < \<bar>r\<bar> \<Longrightarrow> \<bar>r\<bar> < overflow_threshold \<Longrightarrow> product_result r = Fin r"
  by (auto simp: product_result_def)

lemma sum_result_Fin:
  assumes "\<bar>r\<bar> \<le> 10 ^ 300"
  shows "sum_result r = Fin r"
proof -
  have "\<bar>r\<bar> < overflow_threshold" using assms overflow_threshold_gt by (rule le_less_trans)
  then show ?thesis by (intro sum_result_in_range) linarith+
qed

lemma product_result_Fin:
  assumes "1 / 10 ^ 300 \<le> \<bar>r\<bar>" "\<bar>r\<bar> \<le> 10 ^ 300"
  shows "product_result r = Fin r"
proof -
  have "\<bar>r\<bar> < overflow_threshold" using assms(2) overflow_threshold_gt by (rule le_less_trans)
  moreover have "underflow_threshold < \<bar>r\<bar>"
    using underflow_threshold_lt assms(1) by (rule less_le_trans)
  ultimately show ?thesis by (intro product_result_in_range)
qed

lemma sum_result_small: "\<bar>r\<bar> \<le> 1000000 \<Longrightarrow> sum_result r = Fin r"
  by (rule sum_result_Fin) simp

lemma product_result_small:
  "1 / 1000000 \<le> \<bar>r\<bar> \<Longrightarrow> \<bar>r\<bar> \<le> 1000000 \<Longrightarrow> product_result r = Fin r"
proof (rule product_result_Fin)
  assume a: "1 / 1000000 \<le> \<bar>r\<bar>" "\<bar>r\<bar> \<le> 1000000"
  have "(1::real) / 10 ^ 300 \<le> 1 / 1000000" by simp
  then show "1 / 10 ^ 300 \<le> \<bar>r\<bar>" using a(1) by (rule order_trans)
  show "\<bar>r\<bar> \<le> 10 ^ 300" using a(2) by simp
qed

lemma row_simps [simp]:
  "timestamp (row t e u g) = t" "elevation (row t e u g) = Fin e"
  "uncertainty (row t e u g) = Fin u" "geometry (row t e u g) = g"
  by (simp_all add: row_def)

lemma set_unique [simp]: "set (unique xs) = set xs"
  by (induction xs rule: unique.induct) auto

lemma distinct_unique [simp]: "distinct (unique xs)"
  by (induction xs rule: unique.induct) auto

lemma set_unique_timestamps: "set (unique_timestamps df) = timestamp ` set df"
  by (simp add: unique_timestamps_def)

lemma sorted_unique_timestamps: "sorted_wrt (<) (unique_timestamps df)"
  by (simp add: unique_timestamps_def strict_sorted_iff)

lemma unique_timestamps_Nil_iff: "unique_timestamps df = [] \<longleftrightarrow> df = []"
  using set_unique_timestamps[of df] by (metis image_is_empty set_empty)

lemma unique_timestamps_eq: "unique_timestamps df = sorted_list_of_set (timestamp ` set df)"
proof -
  have "sorted (unique_timestamps df)" "distinct (unique_timestamps df)"
    using sorted_unique_timestamps[of df] by (simp_all add: strict_sorted_iff)
  then show ?thesis
    using set_unique_timestamps[of df]
    by (metis sorted_list_of_set.idem_if_sorted_distinct)
qed

text \<open>The first of the sorted timestamps, the reference epoch, is the least timestamp
  of the table.\<close>

lemma hd_unique_timestamps:
  assumes "df \<noteq> []"
  shows "hd (unique_timestamps df) = Min (timestamp ` set df)"
proof -
  have ne: "unique_timestamps df \<noteq> []" using assms by (simp add: unique_timestamps_Nil_iff)
  then obtain t ts where e: "unique_timestamps df = t # ts"
    by (cases "unique_timestamps df") auto
  have "sorted (unique_timestamps df)"
    using sorted_unique_timestamps[of df] by (simp add: strict_sorted_iff)
  then have "\<forall>x\<in>set (unique_timestamps df). t \<le> x" using e by auto
  moreover have "t \<in> set (unique_timestamps df)" using e by simp
  ultimately have "Min (set (unique_timestamps df)) = t"
    by (intro Min_eqI) auto
  then show ?thesis using e set_unique_timestamps[of df] by simp
qed

lemma set_rows_at: "set (rows_at t df) = {s \<in> set df. timestamp s = t}"
  by (auto simp: rows_at_def)

lemma rows_at_Min_nonempty:
  assumes "df \<noteq> []"
  shows "rows_at (Min (timestamp ` set df)) df \<noteq> []"
proof -
  have "Min (timestamp ` set df) \<in> timestamp ` set df"
    using assms by (intro Min_in) auto
  then show ?thesis by (auto simp: rows_at_def filter_empty_conv)
qed

text \<open>On a table with a row the routine returns; the lists are those of the loop.\<close>

lemma calculate_time_series_Inr:
  assumes "df \<noteq> []"
  shows "calculate_time_series f df =
     Inr (map (\<lambda>t. fst (weighted_mean_and_error (rows_at (Min (timestamp ` set df)) df) (rows_at t df)))
            (unique_timestamps df),
          map (\<lambda>t. snd (weighted_mean_and_error (rows_at (Min (timestamp ` set df)) df) (rows_at t df)))
            (unique_timestamps df),
          map f (unique_timestamps df))"
proof -
  obtain t ts where e: "unique_timestamps df = t # ts"
    using assms unique_timestamps_Nil_iff[of df] by (cases "unique_timestamps df") auto
  have "t = Min (timestamp ` set df)" using hd_unique_timestamps[OF assms] e by simp
  then show ?thesis
    unfolding calculate_time_series_def e by (simp add: Let_def comp_def)
qed

lemma calculate_time_series_Nil: "calculate_time_series f [] = Inl IndexError"
  by (simp add: calculate_time_series_def unique_timestamps_def)

text \<open>The columns of the joined table, row by row.\<close>

lemma weighted_mean_and_error_rows:
  "weighted_mean_and_error R S =
     (fdiv (nansum (map pair_num (sjoin R S))) (nansum (map pair_weight (sjoin R S))),
      fsqrt (fdiv (Fin 1) (nansum (map pair_weight (sjoin R S)))))"
proof -
  have a: "pair_num = (\<lambda>x. fdiv (fsub (elevation (snd x)) (elevation (fst x)))
                   (fpow2 (fsqrt (fadd (fpow2 (uncertainty (snd x))) (fpow2 (uncertainty (fst x)))))))"
    by (rule ext) (simp add: pair_num_def pair_sigma_def)
  have b: "pair_weight = (\<lambda>x. fdiv (Fin 1)
                   (fpow2 (fsqrt (fadd (fpow2 (uncertainty (snd x))) (fpow2 (uncertainty (fst x)))))))"
    by (rule ext) (simp add: pair_weight_def pair_sigma_def)
  show ?thesis
    unfolding a b
    by (simp add: weighted_mean_and_error_def Let_def zip_map_map zip_same_conv_map comp_def
      case_prod_beta)
qed

lemma filter_as_concat:
  "map (\<lambda>r. (l, r)) (filter P S) = concat (map (\<lambda>r. if P r then [(l, r)] else []) S)"
  by (induction S) auto

text \<open>The join is the pairing of the specification: every left row with every right
  row at the same place.\<close>

lemma sjoin_eq_spec_pairs: "sjoin R S = spec_pairs R S"
proof -
  have h: "\<And>l. map (\<lambda>r. (l, r)) (filter (\<lambda>r. geometry r = geometry l) S)
      = concat (map (\<lambda>r. if geometry l = geometry r then [(l, r)] else []) S)"
    by (subst filter_as_concat) (simp add: eq_commute)
  show ?thesis unfolding sjoin_def spec_pairs_def by (simp only: h)
qed

lemma set_spec_pairs:
  "set (spec_pairs R S) = {(l, r). l \<in> set R \<and> r \<in> set S \<and> geometry l = geometry r}"
  by (auto simp: spec_pairs_def)









lemma weighted_mean_and_error_no_match:
  assumes "geometry ` set R \<inter> geometry ` set S = {}"
  shows "weighted_mean_and_error R S = (NaN, PInf)"
proof -
  have "set (spec_pairs R S) = {}" using assms by (auto simp: set_spec_pairs)
  then have "spec_pairs R S = []" by simp
  then show ?thesis by (simp add: weighted_mean_and_error_rows sjoin_eq_spec_pairs)
qed

text \<open>A table joined with itself, when no place occurs twice in it, pairs every row
  with itself only.\<close>

lemma filter_same_geometry:
  assumes "distinct (map geometry R)" "l \<in> set R"
  shows "filter (\<lambda>r. geometry r = geometry l) R = [l]"
  using assms
proof (induction R)
  case Nil
  then show ?case by simp
next
  case (Cons x R)
  show ?case
  proof (cases "l = x")
    case True
    have "geometry x \<notin> geometry ` set R" using Cons.prems(1) by simp
    then have "\<forall>r\<in>set R. geometry r \<noteq> geometry x" by (metis imageI)
    then have "filter (\<lambda>r. geometry r = geometry x) R = []"
      by (simp add: filter_empty_conv)
    then show ?thesis using True by simp
  next
    case False
    then have "l \<in> set R" using Cons.prems(2) by simp
    moreover have "geometry x \<noteq> geometry l" using Cons.prems(1) \<open>l \<in> set R\<close> by auto
    ultimately show ?thesis using Cons by simp
  qed
qed

lemma sjoin_self:
  assumes "distinct (map geometry R)"
  shows "sjoin R R = map (\<lambda>l. (l, l)) R"
proof -
  have "map (\<lambda>l. map (\<lambda>r. (l, r)) (filter (\<lambda>r. geometry r = geometry l) R)) R
      = map (\<lambda>l. [(l, l)]) R"
    by (rule map_cong[OF refl]) (simp add: filter_same_geometry[OF assms])
  moreover have "concat (map (\<lambda>l. [(l, l)]) R) = map (\<lambda>l. (l, l)) R"
    by (induction R) auto
  ultimately show ?thesis unfolding sjoin_def by (simp only:)
qed

lemma fsub_self: "fsub e e = Fin 0 \<or> fsub e e = NaN"
  by (cases e) (auto simp: fsub_def)

lemma nansum_zero_or_NaN:
  assumes "\<forall>x\<in>set xs. x = Fin 0 \<or> x = NaN"
  shows "nansum xs = Fin 0"
  using assms by (induction xs) auto

lemma pos_or_inf_cases: "pos_or_inf x \<longleftrightarrow> x = PInf \<or> (\<exists>w. x = Fin w \<and> 0 < w)"
  by (cases x) (auto simp: pos_or_inf_def)

lemma sum_result_pos: "0 < r \<Longrightarrow> pos_or_inf (sum_result r)"
  using overflow_threshold_pos by (simp add: sum_result_def pos_or_inf_def)

lemma fadd_pos_or_inf:
  assumes "pos_or_inf x" "pos_or_inf y \<or> y = Fin 0"
  shows "pos_or_inf (fadd x y)"
proof -
  consider "x = PInf" | w where "x = Fin w" "0 < w" using assms(1) by (auto simp: pos_or_inf_cases)
  then show ?thesis
  proof cases
    case 1
    then show ?thesis using assms(2) by (auto simp: pos_or_inf_cases)
  next
    case 2
    consider "y = PInf" | v where "y = Fin v" "0 \<le> v" using assms(2) by (auto simp: pos_or_inf_cases)
    then show ?thesis
    proof cases
      case 1
      then show ?thesis using 2 by (simp add: pos_or_inf_def)
    next
      case (2 v)
      then show ?thesis using \<open>x = Fin w\<close> \<open>0 < w\<close> by (simp add: sum_result_pos)
    qed
  qed
qed

lemma nansum_pos_or_inf:
  assumes "\<forall>x\<in>set xs. pos_or_inf x" "xs \<noteq> []"
  shows "pos_or_inf (nansum xs)"
  using assms
proof (induction xs)
  case Nil
  then show ?case by simp
next
  case (Cons x xs)
  have x: "pos_or_inf x" using Cons.prems(1) by simp
  then have nn: "x \<noteq> NaN" by (auto simp: pos_or_inf_cases)
  have "pos_or_inf (nansum xs) \<or> nansum xs = Fin 0"
  proof (cases "xs = []")
    case True
    then show ?thesis by simp
  next
    case False
    then show ?thesis using Cons by simp
  qed
  then show ?case using nn fadd_pos_or_inf[OF x] by simp
qed

lemma weighted_mean_self:
  assumes d: "distinct (map geometry R)"
    and pos: "\<forall>s\<in>set R. \<exists>u. uncertainty s = Fin u \<and> 0 < u \<and> 2 * u\<^sup>2 < overflow_threshold"
    and ne: "R \<noteq> []"
  shows "fst (weighted_mean_and_error R R) = Fin 0"
proof -
  have sig: "\<exists>v. fpow2 (pair_sigma (l, l)) = Fin v \<and> 0 \<le> v \<and> v < overflow_threshold"
    if l: "l \<in> set R" for l
  proof -
    obtain u where u: "uncertainty l = Fin u" "0 < u" "2 * u\<^sup>2 < overflow_threshold"
      using pos l by auto
    have r: "\<not> overflow_threshold \<le> u\<^sup>2" "\<not> u\<^sup>2 \<le> - overflow_threshold"
      using u(3) overflow_threshold_pos by (smt (verit) zero_le_power2)+
    have "\<exists>x. product_result (u\<^sup>2) = Fin x \<and> 0 \<le> x \<and> 2 * x < overflow_threshold"
    proof (cases "u\<^sup>2 \<le> underflow_threshold")
      case True
      then have "product_result (u\<^sup>2) = Fin 0" using r by (simp add: product_result_def)
      then show ?thesis using overflow_threshold_pos by simp
    next
      case False
      then have "product_result (u\<^sup>2) = Fin (u\<^sup>2)" using r by (simp add: product_result_def)
      then show ?thesis using u(3) by simp
    qed
    then obtain x where x: "product_result (u\<^sup>2) = Fin x" "0 \<le> x" "2 * x < overflow_threshold"
      by blast
    have add: "sum_result (2 * x) = Fin (2 * x)"
      using x(2,3) overflow_threshold_pos by (simp add: sum_result_def)
    have sg: "pair_sigma (l, l) = Fin (sqrt (2 * x))"
      using x(2) by (simp add: pair_sigma_def u(1) x(1) add)
    have "\<exists>v. product_result (2 * x) = Fin v \<and> 0 \<le> v \<and> v < overflow_threshold"
      using x(2,3) overflow_threshold_pos by (simp add: product_result_def)
    then show ?thesis using x(2) by (simp add: sg)
  qed
  have num: "\<forall>x\<in>set (map pair_num (map (\<lambda>l. (l, l)) R)). x = Fin 0 \<or> x = NaN"
  proof -
    have "pair_num (l, l) = Fin 0 \<or> pair_num (l, l) = NaN" if "l \<in> set R" for l
      using sig[OF that] fsub_self[of "elevation l"] by (auto simp: pair_num_def)
    then show ?thesis by auto
  qed
  have w: "\<forall>x\<in>set (map pair_weight (map (\<lambda>l. (l, l)) R)). pos_or_inf x"
  proof -
    have "pos_or_inf (pair_weight (l, l))" if l: "l \<in> set R" for l
    proof -
      obtain v where v: "fpow2 (pair_sigma (l, l)) = Fin v" "0 \<le> v" "v < overflow_threshold"
        using sig[OF l] by blast
      show ?thesis
      proof (cases "v = 0")
        case True
        then show ?thesis using v(1) by (simp add: pair_weight_def pos_or_inf_def)
      next
        case False
        then have vp: "0 < v" using v(2) by simp
        have "1 / overflow_threshold < 1 / v"
          using vp v(3) by (intro divide_strict_left_mono) auto
        then have "underflow_threshold < \<bar>1 / v\<bar>"
          using underflow_lt_inverse_overflow vp by simp
        moreover have "\<not> 1 / v \<le> - overflow_threshold"
          using vp overflow_threshold_pos by (smt (verit) divide_pos_pos)
        ultimately have "product_result (1 / v) = PInf \<or> product_result (1 / v) = Fin (1 / v)"
          using vp by (auto simp: product_result_def)
        then show ?thesis using v(1) vp False by (auto simp: pair_weight_def pos_or_inf_def)
      qed
    qed
    then show ?thesis by auto
  qed
  have "pos_or_inf (nansum (map pair_weight (map (\<lambda>l. (l, l)) R)))"
    using nansum_pos_or_inf[OF w] ne by simp
  then have "fdiv (Fin 0) (nansum (map pair_weight (map (\<lambda>l. (l, l)) R))) = Fin 0"
    by (auto simp: pos_or_inf_cases)
  then show ?thesis
    using nansum_zero_or_NaN[OF num]
    by (simp add: weighted_mean_and_error_rows sjoin_self[OF d])
qed

section \<open>The example tables\<close>

lemma abc_timestamps:
  "t0 < t1 \<Longrightarrow> unique_timestamps (scenario_abc t0 t1 A B C) = [t0, t1]"
  by (simp add: unique_timestamps_def scenario_abc_def)

lemma abc_rows:
  assumes "t0 < t1"
  shows "rows_at t0 (scenario_abc t0 t1 A B C) = [row t0 10 1 A, row t0 20 1 B, row t0 5 1 C]"
    and "rows_at t1 (scenario_abc t0 t1 A B C) = [row t1 10 1 A, row t1 18 1 B, row t1 4 1 C]"
  using assms by (simp_all add: rows_at_def scenario_abc_def)

lemma abc_weighted_mean_and_error:
  assumes "distinct [A, B, C]"
  shows "weighted_mean_and_error [row t0 10 1 A, row t0 20 1 B, row t0 5 1 C]
            [row t0 10 1 A, row t0 20 1 B, row t0 5 1 C] = (Fin 0, Fin (sqrt (2 / 3)))"
   and "weighted_mean_and_error [row t0 10 1 A, row t0 20 1 B, row t0 5 1 C]
            [row t1 10 1 A, row t1 18 1 B, row t1 4 1 C] = (Fin (- 1), Fin (sqrt (2 / 3)))"
  using assms
  by (auto simp: weighted_mean_and_error_def sjoin_def fsub_def Let_def
      sum_result_small product_result_small)

lemma abc_series:
  assumes "t0 < t1" "distinct [A, B, C]"
  shows "calculate_time_series f (scenario_abc t0 t1 A B C) =
     Inr ([Fin 0, Fin (- 1)], [Fin (sqrt (2 / 3)), Fin (sqrt (2 / 3))], [f t0, f t1])"
proof -
  have m: "Min (timestamp ` set (scenario_abc t0 t1 A B C)) = t0"
    using assms(1) by (simp add: scenario_abc_def)
  have ne: "scenario_abc t0 t1 A B C \<noteq> []" by (simp add: scenario_abc_def)
  show ?thesis
    unfolding calculate_time_series_Inr[OF ne] m abc_timestamps[OF assms(1)]
    by (simp add: abc_rows[OF assms(1)] abc_weighted_mean_and_error[OF assms(2)])
qed

lemma example_abc_timestamps: "unique_timestamps example_abc = [0, 1]"
  by (simp add: example_abc_def abc_timestamps)

lemma example_abc_Min: "Min (timestamp ` set example_abc) = 0"
  by (simp add: example_abc_def scenario_abc_def)

lemma example_abc_rows:
  "rows_at 0 example_abc = [row 0 10 1 (0, 0), row 0 20 1 (1, 0), row 0 5 1 (2, 0)]"
  "rows_at 1 example_abc = [row 1 10 1 (0, 0), row 1 18 1 (1, 0), row 1 4 1 (2, 0)]"
  by (simp_all add: example_abc_def abc_rows)

lemma example_no_match_timestamps: "unique_timestamps example_no_match = [0, 1, 2]"
  by (simp add: unique_timestamps_def example_no_match_def)

lemma example_no_match_Min: "Min (timestamp ` set example_no_match) = 0"
  by (simp add: example_no_match_def)

lemma example_no_match_rows:
  "rows_at 0 example_no_match = [row 0 1 1 (0, 0)]"
  "rows_at 1 example_no_match = [row 1 2 1 (1, 0)]"
  "rows_at 2 example_no_match = [row 2 3 1 (0, 0)]"
  by (simp_all add: rows_at_def example_no_match_def)

lemma example_no_match_weighted_mean_and_error:
  "weighted_mean_and_error [row 0 1 1 (0, 0)] [row 0 1 1 (0, 0)] = (Fin 0, Fin (sqrt 2))"
  "weighted_mean_and_error [row 0 1 1 (0, 0)] [row 2 3 1 (0, 0)] = (Fin 2, Fin (sqrt 2))"
  by (simp_all add: weighted_mean_and_error_def sjoin_def fsub_def Let_def
      sum_result_small product_result_small)


section \<open>Rows without an uncertainty\<close>

lemma nansum_filter: "nansum (filter (\<lambda>x. x \<noteq> NaN) xs) = nansum xs"
  by (induction xs) auto

lemma sjoin_Cons: "sjoin (l # R) S = map (\<lambda>r. (l, r)) (filter (\<lambda>r. geometry r = geometry l) S) @ sjoin R S"
  by (simp add: sjoin_def)

lemma sjoin_append: "sjoin (R1 @ R2) S = sjoin R1 S @ sjoin R2 S"
  by (simp add: sjoin_def)

lemma pair_sigma_NaN:
  assumes "uncertainty s = NaN"
  shows "pair_sigma (l, s) = NaN" "pair_sigma (s, r) = NaN"
  using assms by (simp_all add: pair_sigma_def)

lemma pair_terms_NaN:
  assumes "uncertainty s = NaN"
  shows "pair_num (l, s) = NaN" "pair_num (s, r) = NaN"
    "pair_weight (l, s) = NaN" "pair_weight (s, r) = NaN"
  using pair_sigma_NaN[OF assms] by (simp_all add: pair_num_def pair_weight_def)

lemma drop_right_NaN:
  assumes "\<And>l. h (l, s) = NaN"
  shows "filter (\<lambda>x. x \<noteq> NaN) (map h (sjoin R (xs @ s # ys)))
       = filter (\<lambda>x. x \<noteq> NaN) (map h (sjoin R (xs @ ys)))"
  by (induction R) (simp_all add: sjoin_Cons assms, simp add: sjoin_def)

lemma drop_left_NaN:
  assumes "\<And>r. h (s, r) = NaN"
  shows "filter (\<lambda>x. x \<noteq> NaN) (map h (sjoin (xs @ s # ys) S))
       = filter (\<lambda>x. x \<noteq> NaN) (map h (sjoin (xs @ ys) S))"
proof -
  have "filter (\<lambda>x. x \<noteq> NaN) (map h (sjoin [s] S)) = []"
    by (simp add: sjoin_def filter_empty_conv assms)
  moreover have "sjoin (xs @ s # ys) S = sjoin xs S @ sjoin [s] S @ sjoin ys S"
    by (simp add: sjoin_def)
  ultimately show ?thesis by (simp add: sjoin_append)
qed

lemma nansum_drop_right:
  assumes "\<And>l. h (l, s) = NaN"
  shows "nansum (map h (sjoin R (xs @ s # ys))) = nansum (map h (sjoin R (xs @ ys)))"
  using drop_right_NaN[of h s R xs ys, OF assms] by (metis nansum_filter)

lemma nansum_drop_left:
  assumes "\<And>r. h (s, r) = NaN"
  shows "nansum (map h (sjoin (xs @ s # ys) S)) = nansum (map h (sjoin (xs @ ys) S))"
  using drop_left_NaN[of h s xs ys S, OF assms] by (metis nansum_filter)

lemma wme_drop_right:
  assumes "uncertainty s = NaN"
  shows "weighted_mean_and_error R (xs @ s # ys) = weighted_mean_and_error R (xs @ ys)"
  by (simp add: weighted_mean_and_error_rows nansum_drop_right pair_terms_NaN[OF assms])

lemma wme_drop_left:
  assumes "uncertainty s = NaN"
  shows "weighted_mean_and_error (xs @ s # ys) S = weighted_mean_and_error (xs @ ys) S"
  by (simp add: weighted_mean_and_error_rows nansum_drop_left pair_terms_NaN[OF assms])

lemma rows_at_insert:
  "rows_at t (xs @ s # ys) =
     (if timestamp s = t then rows_at t xs @ s # rows_at t ys else rows_at t xs @ rows_at t ys)"
  by (simp add: rows_at_def)

lemma rows_at_append: "rows_at t (xs @ ys) = rows_at t xs @ rows_at t ys"
  by (simp add: rows_at_def)

lemma series_drop_NaN:
  assumes nan: "uncertainty s = NaN" and ts: "timestamp s \<in> timestamp ` set (xs @ ys)"
  shows "calculate_time_series f (xs @ s # ys) = calculate_time_series f (xs @ ys)"
proof -
  have ne0: "xs @ ys \<noteq> []" using ts by auto
  have ne1: "xs @ s # ys \<noteq> []" by simp
  have img: "timestamp ` set (xs @ s # ys) = timestamp ` set (xs @ ys)" using ts by auto
  have u: "unique_timestamps (xs @ s # ys) = unique_timestamps (xs @ ys)"
    by (simp only: unique_timestamps_eq img)
  have w: "weighted_mean_and_error (rows_at t0 (xs @ s # ys)) (rows_at t (xs @ s # ys))
         = weighted_mean_and_error (rows_at t0 (xs @ ys)) (rows_at t (xs @ ys))" for t0 t
  proof -
    have a: "rows_at t0 (xs @ ys) = rows_at t0 xs @ rows_at t0 ys"
      "rows_at t (xs @ ys) = rows_at t xs @ rows_at t ys"
      by (simp_all add: rows_at_def)
    show ?thesis
      unfolding rows_at_insert a
      by (simp add: wme_drop_right[OF nan] wme_drop_left[OF nan])
  qed
  show ?thesis
    unfolding calculate_time_series_Inr[OF ne0] calculate_time_series_Inr[OF ne1] u img w ..
qed



lemma example_unc_timestamps:
  "unique_timestamps example_zero_unc = [0, 1]" "unique_timestamps example_neg_unc = [0, 1]"
  "unique_timestamps example_without = [0, 1]" "unique_timestamps example_nan_unc = [0, 1]"
  by (simp_all add: unique_timestamps_def example_zero_unc_def example_neg_unc_def
      example_without_def example_nan_unc_def)

lemma example_unc_Min:
  "Min (timestamp ` set example_zero_unc) = 0" "Min (timestamp ` set example_neg_unc) = 0"
  "Min (timestamp ` set example_without) = 0" "Min (timestamp ` set example_nan_unc) = 0"
  by (simp_all add: example_zero_unc_def example_neg_unc_def example_without_def example_nan_unc_def)

lemma example_zero_unc_series:
  "calculate_time_series (\<lambda>t. t) example_zero_unc =
     Inr ([Fin 0, Fin (8 / 3)], [Fin 1, Fin (sqrt (2 / 3))], [0, 1])"
proof -
  have ne: "example_zero_unc \<noteq> []" by (simp add: example_zero_unc_def)
  show ?thesis
    unfolding calculate_time_series_Inr[OF ne] example_unc_timestamps example_unc_Min
    by (simp add: example_zero_unc_def rows_at_def weighted_mean_and_error_def sjoin_def
        fsub_def Let_def sum_result_small product_result_small)
qed

lemma example_neg_unc_series:
  "calculate_time_series (\<lambda>t. t) example_neg_unc =
     Inr ([Fin 0, Fin 3], [Fin 1, Fin 1], [0, 1])"
proof -
  have ne: "example_neg_unc \<noteq> []" by (simp add: example_neg_unc_def)
  show ?thesis
    unfolding calculate_time_series_Inr[OF ne] example_unc_timestamps example_unc_Min
    by (simp add: example_neg_unc_def rows_at_def weighted_mean_and_error_def sjoin_def
        fsub_def Let_def sum_result_small product_result_small)
qed

lemma example_without_series:
  "calculate_time_series (\<lambda>t. t) example_without =
     Inr ([Fin 0, Fin 4], [Fin 1, Fin (sqrt 2)], [0, 1])"
proof -
  have ne: "example_without \<noteq> []" by (simp add: example_without_def)
  show ?thesis
    unfolding calculate_time_series_Inr[OF ne] example_unc_timestamps example_unc_Min
    by (simp add: example_without_def rows_at_def weighted_mean_and_error_def sjoin_def
        fsub_def Let_def sum_result_small product_result_small)
qed





section \<open>The least-squares solver\<close>











































section \<open>The weighted time series on tables within the range of the numbers\<close>








lemma example_huge_unc_series:
  "calculate_time_series (\<lambda>t. t) example_huge_unc = Inr ([NaN], [PInf], [0])"
proof -
  have ne: "example_huge_unc \<noteq> []" by (simp add: example_huge_unc_def)
  have u: "unique_timestamps example_huge_unc = [0]"
    by (simp add: unique_timestamps_def example_huge_unc_def)
  have m: "Min (timestamp ` set example_huge_unc) = 0" by (simp add: example_huge_unc_def)
  have p: "product_result (huge_uncertainty\<^sup>2) = PInf"
    by (simp add: huge_uncertainty_def product_result_def overflow_threshold_def)
  show ?thesis
    unfolding calculate_time_series_Inr[OF ne] u m
    by (simp add: example_huge_unc_def rows_at_def weighted_mean_and_error_def sjoin_def
        fsub_def Let_def p)
qed


section \<open>The table without the rows of one timestamp\<close>

lemma unique_timestamps_without:
  "unique_timestamps (filter (\<lambda>s. timestamp s \<noteq> t) df) = filter (\<lambda>u. u \<noteq> t) (unique_timestamps df)"
proof -
  have s: "timestamp ` set (filter (\<lambda>s. timestamp s \<noteq> t) df) = timestamp ` set df - {t}"
    by auto
  have d: "distinct (sorted_list_of_set (timestamp ` set df))" by simp
  have "sorted_list_of_set (timestamp ` set df - {t})
      = remove1 t (sorted_list_of_set (timestamp ` set df))"
    by (rule sorted_list_of_set_remove) simp
  also have "\<dots> = removeAll t (sorted_list_of_set (timestamp ` set df))"
    using d by (rule distinct_remove1_removeAll)
  also have "\<dots> = filter (\<lambda>u. u \<noteq> t) (sorted_list_of_set (timestamp ` set df))"
    by (induction "sorted_list_of_set (timestamp ` set df)") (auto simp: removeAll_filter_not_eq intro: filter_cong)
  finally show ?thesis by (simp only: unique_timestamps_eq s)
qed

lemma Min_without:
  assumes "t \<noteq> Min (timestamp ` set df)" and "df \<noteq> []"
  shows "Min (timestamp ` set (filter (\<lambda>s. timestamp s \<noteq> t) df)) = Min (timestamp ` set df)"
proof (rule Min_eqI)
  show "finite (timestamp ` set (filter (\<lambda>s. timestamp s \<noteq> t) df))" by simp
  show "Min (timestamp ` set df) \<le> y" if "y \<in> timestamp ` set (filter (\<lambda>s. timestamp s \<noteq> t) df)" for y
    using that by (intro Min_le) auto
  have "Min (timestamp ` set df) \<in> timestamp ` set df" using assms(2) by (intro Min_in) auto
  then show "Min (timestamp ` set df) \<in> timestamp ` set (filter (\<lambda>s. timestamp s \<noteq> t) df)"
    using assms(1) by auto
qed

lemma rows_at_without:
  "u \<noteq> t \<Longrightarrow> rows_at u (filter (\<lambda>s. timestamp s \<noteq> t) df) = rows_at u df"
  by (auto simp: rows_at_def intro: filter_cong)

lemma zip_filter_map:
  "map snd (filter (\<lambda>(u, m). u \<noteq> t) (zip us (map g us))) = map g (filter (\<lambda>u. u \<noteq> t) us)"
  by (induction us) auto

lemma no_match_not_reference:
  assumes "df \<noteq> []"
    and "geometry ` set (rows_at (Min (timestamp ` set df)) df) \<inter> geometry ` set (rows_at t df) = {}"
  shows "t \<noteq> Min (timestamp ` set df)"
proof
  assume "t = Min (timestamp ` set df)"
  then have "geometry ` set (rows_at t df) = {}" using assms(2) by auto
  then have "rows_at t df = []" by simp
  then show False using rows_at_Min_nonempty[OF assms(1)] \<open>t = Min (timestamp ` set df)\<close> by simp
qed

lemma series_without:
  assumes ne: "df \<noteq> []" and t: "t \<noteq> Min (timestamp ` set df)"
  shows "calculate_time_series f (filter (\<lambda>s. timestamp s \<noteq> t) df) =
     Inr (map (\<lambda>u. fst (weighted_mean_and_error (rows_at (Min (timestamp ` set df)) df) (rows_at u df)))
            (filter (\<lambda>u. u \<noteq> t) (unique_timestamps df)),
          map (\<lambda>u. snd (weighted_mean_and_error (rows_at (Min (timestamp ` set df)) df) (rows_at u df)))
            (filter (\<lambda>u. u \<noteq> t) (unique_timestamps df)),
          map f (filter (\<lambda>u. u \<noteq> t) (unique_timestamps df)))"
proof -
  let ?df = "filter (\<lambda>s. timestamp s \<noteq> t) df"
  have "Min (timestamp ` set df) \<in> timestamp ` set df" using ne by (intro Min_in) auto
  then have ne': "?df \<noteq> []" using t by (auto simp: filter_empty_conv)
  have m: "Min (timestamp ` set ?df) = Min (timestamp ` set df)" by (rule Min_without[OF t ne])
  have r: "rows_at (Min (timestamp ` set df)) ?df = rows_at (Min (timestamp ` set df)) df"
    using t by (intro rows_at_without) simp
  show ?thesis
    unfolding calculate_time_series_Inr[OF ne'] m r unique_timestamps_without
    by (simp add: rows_at_without cong: map_cong)
qed

lemma example_disjoint_timestamps: "unique_timestamps example_disjoint = [0, 5, 9]"
  by (simp add: unique_timestamps_def example_disjoint_def)

lemma example_disjoint_Min: "Min (timestamp ` set example_disjoint) = 0"
  by (simp add: example_disjoint_def)

lemma example_disjoint_rows:
  "rows_at 0 example_disjoint = [row 0 1 1 (0, 0), row 0 3 1 (1, 0)]"
  "rows_at 5 example_disjoint = [row 5 2 1 (2, 0)]"
  "rows_at 9 example_disjoint = [row 9 4 1 (0, 0), row 9 9 1 (1, 0)]"
  by (simp_all add: rows_at_def example_disjoint_def)

lemma example_disjoint_series:
  "calculate_time_series (\<lambda>t. t) example_disjoint
     = Inr ([Fin 0, NaN, Fin (9 / 2)], [Fin 1, PInf, Fin 1], [0, 5, 9])"
proof -
  have ne: "example_disjoint \<noteq> []" by (simp add: example_disjoint_def)
  show ?thesis
    unfolding calculate_time_series_Inr[OF ne] example_disjoint_timestamps example_disjoint_Min
    by (simp add: example_disjoint_rows weighted_mean_and_error_def sjoin_def fsub_def Let_def
        sum_result_small product_result_small)
qed

lemma example_no_match_series:
  "calculate_time_series (\<lambda>t. t) example_no_match
     = Inr ([Fin 0, NaN, Fin 2], [Fin (sqrt 2), PInf, Fin (sqrt 2)], [0, 1, 2])"
proof -
  have ne: "example_no_match \<noteq> []" by (simp add: example_no_match_def)
  show ?thesis
    unfolding calculate_time_series_Inr[OF ne] example_no_match_timestamps example_no_match_Min
    by (simp add: example_no_match_rows weighted_mean_and_error_def sjoin_def fsub_def Let_def
        sum_result_small product_result_small)
qed


section \<open>The weighted time series: the claims\<close>




text \<open>
  C3. For a table with at least one row, \<open>calculate_time_series\<close> returns three lists
  of one length, the number of distinct timestamps of the table: one entry for every
  distinct timestamp. The dates are the conversions of the list \<open>unique_timestamps\<close>,
  which is strictly ascending and holds exactly the timestamps of the table.
\<close>

theorem series_timestamps_strictly_ascending:
  assumes "df \<noteq> []"
  shows "\<exists>ms es. calculate_time_series f df = Inr (ms, es, map f (unique_timestamps df))
           \<and> length ms = card (timestamp ` set df) \<and> length es = card (timestamp ` set df)
           \<and> length (unique_timestamps df) = card (timestamp ` set df)
           \<and> sorted_wrt (<) (unique_timestamps df)
           \<and> set (unique_timestamps df) = timestamp ` set df"
proof -
  have d: "distinct (unique_timestamps df)"
    using sorted_unique_timestamps[of df] by (simp add: strict_sorted_iff)
  have "length (unique_timestamps df) = card (timestamp ` set df)"
    using distinct_card[OF d] by (simp add: set_unique_timestamps)
  then show ?thesis
    unfolding calculate_time_series_Inr[OF assms]
    by (simp add: sorted_unique_timestamps set_unique_timestamps)
qed

theorem series_timestamps_strictly_ascending_witness:
  "example_abc \<noteq> [] \<and> (\<exists>ms es. calculate_time_series (\<lambda>t. t) example_abc = Inr (ms, es, [0, 1]))
   \<and> sorted_wrt (<) [0, 1 :: int] \<and> timestamp ` set example_abc = {0, 1}"
proof -
  have h1: "example_abc \<noteq> []" by (simp add: example_abc_def scenario_abc_def)
  show ?thesis
    using h1 series_timestamps_strictly_ascending[OF h1, of "\<lambda>t. t"]
    by (auto simp: example_abc_timestamps)
qed

text \<open>
  C5. A sample with an uncertainty of zero and a sample with a negative uncertainty are
  not excluded from the weighted computation: they enter through their squares. The
  three tables differ only in the row of the second timestamp at the place \<open>(0, 0)\<close>
  (uncertainty zero, uncertainty \<open>-1\<close>, row absent), and the results of the first two
  are not the result over the remaining pairs.
\<close>

theorem invalid_uncertainty_not_excluded:
  "calculate_time_series (\<lambda>t. t) example_zero_unc
      = Inr ([Fin 0, Fin (8 / 3)], [Fin 1, Fin (sqrt (2 / 3))], [0, 1])
   \<and> calculate_time_series (\<lambda>t. t) example_neg_unc = Inr ([Fin 0, Fin 3], [Fin 1, Fin 1], [0, 1])
   \<and> calculate_time_series (\<lambda>t. t) example_without
      = Inr ([Fin 0, Fin 4], [Fin 1, Fin (sqrt 2)], [0, 1])
   \<and> calculate_time_series (\<lambda>t. t) example_zero_unc \<noteq> calculate_time_series (\<lambda>t. t) example_without
   \<and> calculate_time_series (\<lambda>t. t) example_neg_unc \<noteq> calculate_time_series (\<lambda>t. t) example_without"
  by (simp add: example_zero_unc_series example_neg_unc_series example_without_series)

text \<open>
  C5, as the routine behaves: a sample whose uncertainty is not-a-number (a missing
  uncertainty) is excluded from the weighted computation. Wherever it stands among the
  rows of a timestamp or among the reference rows, the result of the loop body is that
  of the rows without it, and when its timestamp occurs in another row the whole result
  is that of the table without it. No sample, whatever its uncertainty, makes the
  computation raise: a table with a row gives a result.
\<close>

theorem missing_uncertainty_excluded:
  "(uncertainty s = NaN \<longrightarrow>
      weighted_mean_and_error R (xs @ s # ys) = weighted_mean_and_error R (xs @ ys)
    \<and> weighted_mean_and_error (xs @ s # ys) S = weighted_mean_and_error (xs @ ys) S
    \<and> (timestamp s \<in> timestamp ` set (xs @ ys) \<longrightarrow>
         calculate_time_series f (xs @ s # ys) = calculate_time_series f (xs @ ys)))
   \<and> (\<exists>r. calculate_time_series f (xs @ s # ys) = Inr r)"
  using wme_drop_right[of s R xs ys] wme_drop_left[of s xs ys S] series_drop_NaN[of s xs ys f]
    calculate_time_series_Inr[of "xs @ s # ys" f]
  by simp

theorem missing_uncertainty_excluded_witness:
  "uncertainty \<lparr>timestamp = 1, elevation = Fin 2, uncertainty = NaN, geometry = (0, 0)\<rparr> = NaN
   \<and> (1::int) \<in> timestamp ` set example_without
   \<and> calculate_time_series (\<lambda>t. t) example_nan_unc
      = Inr ([Fin 0, Fin 4], [Fin 1, Fin (sqrt 2)], [0, 1])"
proof -
  have e: "example_nan_unc = [row 0 0 1 (0, 0), row 0 0 1 (1, 0)]
      @ \<lparr>timestamp = 1, elevation = Fin 2, uncertainty = NaN, geometry = (0, 0)\<rparr> # [row 1 4 1 (1, 0)]"
    "example_without = [row 0 0 1 (0, 0), row 0 0 1 (1, 0)] @ [row 1 4 1 (1, 0)]"
    by (simp_all add: example_nan_unc_def example_without_def)
  have h: "(1::int) \<in> timestamp ` set example_without" by (simp add: example_without_def)
  show ?thesis
    using h missing_uncertainty_excluded[of "\<lparr>timestamp = 1, elevation = Fin 2, uncertainty = NaN, geometry = (0, 0)\<rparr>"
        "[]" "[row 0 0 1 (0, 0), row 0 0 1 (1, 0)]" "[row 1 4 1 (1, 0)]" "[]" "\<lambda>t. t"]
    unfolding e[symmetric]
    by (simp add: example_without_series)
qed

text \<open>
  C6. On the table without rows \<open>calculate_time_series\<close> fails, and the failure is the
  \<open>IndexError\<close> of taking element 0 of the empty list of timestamps: the routine checks
  nothing and has no error of its own for an invalid input.
\<close>

theorem empty_table_raises_IndexError:
  "calculate_time_series (\<lambda>t. t) [] = Inl IndexError"
  by (rule calculate_time_series_Nil)

text \<open>
  C6, as the routine behaves: it fails with \<open>IndexError\<close> on the empty table and on no
  other table.
\<close>

theorem series_fails_iff_empty:
  "calculate_time_series f df = Inl IndexError \<longleftrightarrow> df = []"
proof (cases "df = []")
  case True
  then show ?thesis by (simp add: calculate_time_series_Nil)
next
  case False
  then show ?thesis by (simp add: calculate_time_series_Inr)
qed

text \<open>
  C7. When the rows of a timestamp share no place with the reference rows, the
  uncertainty of its entry is not not-a-number: in the table of three timestamps whose
  second has its only row at another place, the entry of that timestamp has the mean
  not-a-number and the uncertainty plus infinity.
\<close>

theorem no_match_uncertainty_not_nan:
  "geometry ` set (rows_at (Min (timestamp ` set example_no_match)) example_no_match)
       \<inter> geometry ` set (rows_at 1 example_no_match) = {}
   \<and> (case calculate_time_series (\<lambda>t. t) example_no_match of
         Inr (ms, es, ds) \<Rightarrow> ds ! 1 = 1 \<and> ms ! 1 = NaN \<and> es ! 1 = PInf \<and> es ! 1 \<noteq> NaN
       | Inl e \<Rightarrow> False)"
  by (simp add: example_no_match_series example_no_match_Min example_no_match_rows)

text \<open>
  C7, as the routine behaves: when the rows of a timestamp \<open>t\<close> of the table share no
  place with the reference rows, \<open>calculate_time_series\<close> returns without an exception,
  with one entry for every timestamp; the entry of \<open>t\<close> has the mean not-a-number and the
  uncertainty plus infinity; and the entries of the other timestamps are those of the
  series of the table without the rows of \<open>t\<close>.
\<close>

theorem no_match_entry_is_local:
  assumes t: "t \<in> timestamp ` set df"
    and no: "geometry ` set (rows_at (Min (timestamp ` set df)) df) \<inter> geometry ` set (rows_at t df) = {}"
  shows "\<exists>ms es. calculate_time_series f df = Inr (ms, es, map f (unique_timestamps df))
           \<and> length ms = length (unique_timestamps df)
           \<and> length es = length (unique_timestamps df)
           \<and> (\<forall>i < length (unique_timestamps df).
                 unique_timestamps df ! i = t \<longrightarrow> ms ! i = NaN \<and> es ! i = PInf)
           \<and> calculate_time_series f (filter (\<lambda>s. timestamp s \<noteq> t) df)
               = Inr (map snd (filter (\<lambda>(u, m). u \<noteq> t) (zip (unique_timestamps df) ms)),
                      map snd (filter (\<lambda>(u, e). u \<noteq> t) (zip (unique_timestamps df) es)),
                      map f (filter (\<lambda>u. u \<noteq> t) (unique_timestamps df)))"
proof -
  have ne: "df \<noteq> []" using t by auto
  have tm: "t \<noteq> Min (timestamp ` set df)" by (rule no_match_not_reference[OF ne no])
  let ?R = "rows_at (Min (timestamp ` set df)) df"
  let ?ms = "map (\<lambda>u. fst (weighted_mean_and_error ?R (rows_at u df))) (unique_timestamps df)"
  let ?es = "map (\<lambda>u. snd (weighted_mean_and_error ?R (rows_at u df))) (unique_timestamps df)"
  have a: "calculate_time_series f df = Inr (?ms, ?es, map f (unique_timestamps df))"
    by (rule calculate_time_series_Inr[OF ne])
  have b: "\<forall>i < length (unique_timestamps df).
             unique_timestamps df ! i = t \<longrightarrow> ?ms ! i = NaN \<and> ?es ! i = PInf"
    using weighted_mean_and_error_no_match[OF no] by simp
  have c: "calculate_time_series f (filter (\<lambda>s. timestamp s \<noteq> t) df)
               = Inr (map snd (filter (\<lambda>(u, m). u \<noteq> t) (zip (unique_timestamps df) ?ms)),
                      map snd (filter (\<lambda>(u, e). u \<noteq> t) (zip (unique_timestamps df) ?es)),
                      map f (filter (\<lambda>u. u \<noteq> t) (unique_timestamps df)))"
    unfolding zip_filter_map by (rule series_without[OF ne tm])
  have l: "length ?ms = length (unique_timestamps df)" "length ?es = length (unique_timestamps df)"
    by simp_all
  show ?thesis using a b c l by blast
qed

theorem no_match_entry_is_local_witness:
  "5 \<in> timestamp ` set example_disjoint
   \<and> geometry ` set (rows_at (Min (timestamp ` set example_disjoint)) example_disjoint)
       \<inter> geometry ` set (rows_at 5 example_disjoint) = {}
   \<and> calculate_time_series (\<lambda>t. t) example_disjoint
       = Inr ([Fin 0, NaN, Fin (9 / 2)], [Fin 1, PInf, Fin 1], [0, 5, 9])
   \<and> calculate_time_series (\<lambda>t. t) (filter (\<lambda>s. timestamp s \<noteq> 5) example_disjoint)
       = Inr ([Fin 0, Fin (9 / 2)], [Fin 1, Fin 1], [0, 9])"
proof -
  have h1: "5 \<in> timestamp ` set example_disjoint" by (simp add: example_disjoint_def)
  have h2: "geometry ` set (rows_at (Min (timestamp ` set example_disjoint)) example_disjoint)
       \<inter> geometry ` set (rows_at 5 example_disjoint) = {}"
    by (simp add: example_disjoint_Min example_disjoint_rows)
  obtain ms es where
    a: "calculate_time_series (\<lambda>t. t) example_disjoint
          = Inr (ms, es, map (\<lambda>t. t) (unique_timestamps example_disjoint))"
    and c: "calculate_time_series (\<lambda>t. t) (filter (\<lambda>s. timestamp s \<noteq> 5) example_disjoint)
               = Inr (map snd (filter (\<lambda>(u, m). u \<noteq> 5) (zip (unique_timestamps example_disjoint) ms)),
                      map snd (filter (\<lambda>(u, e). u \<noteq> 5) (zip (unique_timestamps example_disjoint) es)),
                      map (\<lambda>t. t) (filter (\<lambda>u. u \<noteq> 5) (unique_timestamps example_disjoint)))"
    using no_match_entry_is_local[OF h1 h2, of "\<lambda>t. t"] by blast
  have ms: "ms = [Fin 0, NaN, Fin (9 / 2)]" and es: "es = [Fin 1, PInf, Fin 1]"
    using a by (simp_all add: example_disjoint_series)
  have "calculate_time_series (\<lambda>t. t) (filter (\<lambda>s. timestamp s \<noteq> 5) example_disjoint)
       = Inr ([Fin 0, Fin (9 / 2)], [Fin 1, Fin 1], [0, 9])"
    unfolding c ms es example_disjoint_timestamps by simp
  then show ?thesis using h1 h2 example_disjoint_series by simp
qed

text \<open>
  C8. For three distinct places \<open>A\<close>, \<open>B\<close>, \<open>C\<close> and two timestamps \<open>t0 < t1\<close>, with the
  elevations \<open>A: (10, 10)\<close>, \<open>B: (20, 18)\<close>, \<open>C: (5, 4)\<close> and every uncertainty 1, the
  expected result with the uncertainties \<open>0\<close> and \<open>sqrt (1 / 3)\<close> is not what
  \<open>calculate_time_series\<close> returns.
\<close>

theorem scenario_abc_not_sqrt_third:
  "calculate_time_series (\<lambda>t. t) (scenario_abc 0 1 (0, 0) (1, 0) (2, 0))
     \<noteq> Inr ([Fin 0, Fin (- 1)], [Fin 0, Fin (sqrt (1 / 3))], [0, 1])"
proof -
  have "sqrt (2 / 3) \<noteq> sqrt (1 / 3)" by simp
  then show ?thesis
    using abc_series[of 0 1 "(0, 0)" "(1, 0)" "(2, 0)" "\<lambda>t. t"] by simp
qed

text \<open>
  C8, as the routine behaves: the means are \<open>0\<close> and \<open>-1\<close>, and both uncertainties are
  \<open>sqrt (2 / 3)\<close>, since every pair has the combined variance \<open>1\<^sup>2 + 1\<^sup>2 = 2\<close> and the
  three weights add up to \<open>3 / 2\<close>; the reference timestamp is paired with itself like
  any other.
\<close>

theorem scenario_abc_series:
  assumes "t0 < t1" "distinct [A, B, C]"
  shows "calculate_time_series f (scenario_abc t0 t1 A B C) =
     Inr ([Fin 0, Fin (- 1)], [Fin (sqrt (2 / 3)), Fin (sqrt (2 / 3))], [f t0, f t1])"
  using assms by (rule abc_series)

theorem scenario_abc_series_witness:
  "(0::int) < 1 \<and> distinct [(0, 0), (1, 0), (2, 0 :: real) :: point]
   \<and> calculate_time_series (\<lambda>t. t) (scenario_abc 0 1 (0, 0) (1, 0) (2, 0)) =
     Inr ([Fin 0, Fin (- 1)], [Fin (sqrt (2 / 3)), Fin (sqrt (2 / 3))], [0, 1])"
proof -
  have h1: "(0::int) < 1" by simp
  have h2: "distinct [(0, 0), (1, 0), (2, 0 :: real) :: point]" by simp
  show ?thesis using h1 h2 scenario_abc_series[OF h1 h2, of "\<lambda>t. t"] by simp
qed

text \<open>
  C9. With every place once per timestamp and every uncertainty finite and positive,
  the mean of the reference entry need not be 0: for the table of one row with the
  uncertainty \<open>10\<^sup>2\<^sup>0\<^sup>0\<close> the square of the uncertainty is plus infinity, the weight and
  the numerator are 0, and the mean is the quotient \<open>0 / 0\<close>, not-a-number.
\<close>

theorem huge_uncertainty_reference_mean_nan:
  "distinct (map geometry example_huge_unc)
   \<and> list_all (\<lambda>s. uncertainty s = Fin (10 ^ 200)) example_huge_unc
   \<and> calculate_time_series (\<lambda>t. t) example_huge_unc = Inr ([NaN], [PInf], [0])"
  by (simp add: example_huge_unc_series) (simp add: example_huge_unc_def huge_uncertainty_def)

text \<open>
  C9, as the routine behaves: when every place occurs at most once per timestamp and
  every uncertainty \<open>u\<close> is finite and positive with \<open>2 * u\<^sup>2\<close> below the overflow threshold
  of the numbers, the first entry of the series is that of the reference timestamp,
  the least of the table, and its weighted mean is 0.
\<close>

theorem reference_mean_zero_below_overflow:
  assumes ne: "df \<noteq> []"
    and once: "\<forall>t. distinct (map geometry (rows_at t df))"
    and pos: "\<forall>s\<in>set df. \<exists>u. uncertainty s = Fin u \<and> 0 < u \<and> 2 * u\<^sup>2 < overflow_threshold"
  shows "\<exists>ms es ds. calculate_time_series f df = Inr (ms, es, ds)
           \<and> hd ds = f (Min (timestamp ` set df)) \<and> hd ms = Fin 0"
proof -
  have une: "unique_timestamps df \<noteq> []" using ne by (simp add: unique_timestamps_Nil_iff)
  have p: "\<forall>s\<in>set (rows_at (Min (timestamp ` set df)) df).
      \<exists>u. uncertainty s = Fin u \<and> 0 < u \<and> 2 * u\<^sup>2 < overflow_threshold"
    using pos by (simp add: set_rows_at)
  have z: "fst (weighted_mean_and_error (rows_at (Min (timestamp ` set df)) df)
                  (rows_at (Min (timestamp ` set df)) df)) = Fin 0"
    using weighted_mean_self[OF _ p rows_at_Min_nonempty[OF ne]] once by blast
  show ?thesis
    unfolding calculate_time_series_Inr[OF ne]
    using une z hd_unique_timestamps[OF ne] by (simp add: hd_map)
qed

theorem reference_mean_zero_below_overflow_witness:
  "example_abc \<noteq> [] \<and> (\<forall>t. distinct (map geometry (rows_at t example_abc)))
   \<and> list_all (\<lambda>s. \<exists>u. uncertainty s = Fin u \<and> 0 < u \<and> 2 * u\<^sup>2 < overflow_threshold) example_abc
   \<and> (\<exists>ms es ds. calculate_time_series (\<lambda>t. t) example_abc = Inr (ms, es, ds)
         \<and> hd ds = 0 \<and> hd ms = Fin 0)"
proof -
  have h1: "example_abc \<noteq> []" by (simp add: example_abc_def scenario_abc_def)
  have h2: "\<forall>t. distinct (map geometry (rows_at t example_abc))"
    by (simp add: example_abc_def scenario_abc_def rows_at_def)
  have "(2::real) \<le> 10 ^ 300" by simp
  then have "(2::real) < overflow_threshold" by (rule le_less_trans[OF _ overflow_threshold_gt])
  then have h3: "\<forall>s\<in>set example_abc. \<exists>u. uncertainty s = Fin u \<and> 0 < u \<and> 2 * u\<^sup>2 < overflow_threshold"
    by (simp add: example_abc_def scenario_abc_def)
  show ?thesis
    using h1 h2 h3 reference_mean_zero_below_overflow[OF h1 h2 h3, of "\<lambda>t. t"]
    by (simp add: list_all_iff example_abc_Min)
qed

text \<open>
  C10. When the rows of a timestamp \<open>t\<close> of the table share no place with the reference
  rows, \<open>calculate_time_series\<close> returns without an exception; the entry of \<open>t\<close> has the
  weighted mean not-a-number, the quotient \<open>0 / 0\<close> of the two empty sums, and the
  uncertainty plus infinity, the root of \<open>1 / 0\<close>, which is not not-a-number; the entry
  of every other timestamp is the result of the loop body on its rows.
\<close>

theorem no_match_entry_nan_and_infinity:
  assumes "t \<in> timestamp ` set df"
    and "geometry ` set (rows_at (Min (timestamp ` set df)) df) \<inter> geometry ` set (rows_at t df) = {}"
  shows "calculate_time_series f df =
     Inr (map (\<lambda>u. if u = t then NaN
                    else fst (weighted_mean_and_error (rows_at (Min (timestamp ` set df)) df) (rows_at u df)))
            (unique_timestamps df),
          map (\<lambda>u. if u = t then PInf
                    else snd (weighted_mean_and_error (rows_at (Min (timestamp ` set df)) df) (rows_at u df)))
            (unique_timestamps df),
          map f (unique_timestamps df))"
proof -
  have ne: "df \<noteq> []" using assms(1) by auto
  show ?thesis
    unfolding calculate_time_series_Inr[OF ne]
    using weighted_mean_and_error_no_match[OF assms(2)] by simp
qed

theorem no_match_entry_nan_and_infinity_witness:
  "1 \<in> timestamp ` set example_no_match
   \<and> geometry ` set (rows_at (Min (timestamp ` set example_no_match)) example_no_match)
       \<inter> geometry ` set (rows_at 1 example_no_match) = {}
   \<and> calculate_time_series (\<lambda>t. t) example_no_match =
       Inr ([Fin 0, NaN, Fin 2], [Fin (sqrt 2), PInf, Fin (sqrt 2)], [0, 1, 2])"
proof -
  have h1: "1 \<in> timestamp ` set example_no_match" by (simp add: example_no_match_def)
  have h2: "geometry ` set (rows_at (Min (timestamp ` set example_no_match)) example_no_match)
       \<inter> geometry ` set (rows_at 1 example_no_match) = {}"
    by (simp add: example_no_match_Min example_no_match_rows)
  show ?thesis
    using h1 h2 no_match_entry_nan_and_infinity[OF h1 h2, of "\<lambda>t. t"]
    by (simp add: example_no_match_timestamps example_no_match_Min example_no_match_rows
        example_no_match_weighted_mean_and_error)
qed


section \<open>The map of the rate of change: the claims\<close>






end
